theory Spec2Isabelle
  imports Complex_Main
begin

section \<open>Python values and exceptions\<close>

text \<open>
  The program handles values decoded from JSON by \<^verbatim>\<open>response.json()\<close>. A float is
  either a finite number or one of the three special values that Python's decoder also
  accepts. A dict is an association list read with \<open>map_of\<close>.
\<close>

datatype pyfloat = Finite rat | PosInf | NegInf | NaN

datatype json =
    JNull
  | JBool bool
  | JInt int
  | JFloat pyfloat
  | JStr string
  | JList "json list"
  | JDict "(string \<times> json) list"

text \<open>
  The exceptions the program can meet, all of them subclasses of \<^verbatim>\<open>Exception\<close>:
  the three that Python itself raises on a value of the wrong shape, and \<open>EnvError\<close>
  for whatever the network, the decoder or the file system raises (with its message).
\<close>

datatype exn = AttributeError | TypeError | ValueError | EnvError string

text \<open>Truth value testing, as \<^verbatim>\<open>if x\<close>, \<^verbatim>\<open>not x\<close> and \<^verbatim>\<open>x or y\<close> do it.\<close>

fun truthy :: "json \<Rightarrow> bool" where
  "truthy JNull = False"
| "truthy (JBool b) = b"
| "truthy (JInt n) = (n \<noteq> 0)"
| "truthy (JFloat f) = (f \<noteq> Finite 0)"
| "truthy (JStr s) = (s \<noteq> [])"
| "truthy (JList xs) = (xs \<noteq> [])"
| "truthy (JDict kvs) = (kvs \<noteq> [])"

section \<open>Filename Sanitizer\<close>

text \<open>
  \<^verbatim>\<open>re.sub(cls, repl, s)\<close> for a pattern that is one character class: every character
  of the class is replaced by \<open>repl\<close>, every other character is kept.
\<close>

definition re_sub_class :: "char list \<Rightarrow> string \<Rightarrow> string \<Rightarrow> string" where
  "re_sub_class cls repl s = concat (map (\<lambda>c. if c \<in> set cls then repl else [c]) s)"

text \<open>The class \<^verbatim>\<open>[\\/*?:"<>|]\<close> of line 9, in the order the pattern lists it.\<close>

definition reserved_chars :: "char list" where
  "reserved_chars =
     [CHR 0x5C, CHR ''/'', CHR ''*'', CHR ''?'', CHR '':'', CHR 0x22, CHR ''<'', CHR ''>'', CHR ''|'']"

definition sanitize_filename :: "string \<Rightarrow> string" where
  "sanitize_filename name = re_sub_class reserved_chars [] name"

section \<open>The world the program runs in\<close>

text \<open>
  \<^verbatim>\<open>str(n)\<close> for an integer: decimal digits, with a minus sign when negative.
\<close>

definition digit_char :: "nat \<Rightarrow> char" where
  "digit_char d = ''0123456789'' ! d"

fun show_nat :: "nat \<Rightarrow> string" where
  "show_nat n = (if n < 10 then [digit_char n] else show_nat (n div 10) @ [digit_char (n mod 10)])"

declare show_nat.simps [simp del]

definition show_int :: "int \<Rightarrow> string" where
  "show_int i = (if i < 0 then CHR ''-'' # show_nat (nat (- i)) else show_nat (nat i))"

text \<open>
  Every \<^verbatim>\<open>print\<close> of the program is one constructor, carrying the values the
  f-string interpolates (lines 51, 54, 64, 71, 75, 86, 96, 100, 105, 109, 114).
\<close>

datatype msg =
    MsgDownloadFailed json json int
  | MsgDownloadException json json exn
  | MsgMissingData nat
  | MsgMissingId nat
  | MsgDownloading nat nat json json
  | MsgFailedSaved
  | MsgRateLimited int
  | MsgSkippingOffset int int
  | MsgUnexpectedData int
  | MsgFetched nat int
  | MsgFetchError int exn

text \<open>
  What the program does to the outside, in order: \<^verbatim>\<open>requests.get\<close> with its URL and
  query parameters, \<^verbatim>\<open>time.sleep\<close> with its seconds, \<^verbatim>\<open>print\<close>. The progress bar
  of \<^verbatim>\<open>tqdm\<close> only draws and is left out.
\<close>

datatype event = Get string "(string \<times> string) list" | Sleep nat | Print msg

text \<open>The working directory (file name to content) and the trace of events so far.\<close>

record world =
  files :: "string \<Rightarrow> string option"
  events :: "event list"

definition emit :: "event \<Rightarrow> world \<Rightarrow> world" where
  "emit e w = w\<lparr>events := events w @ [e]\<rparr>"

fun is_get :: "event \<Rightarrow> bool" where
  "is_get (Get url params) = True"
| "is_get _ = False"

definition requests_made :: "world \<Rightarrow> nat" where
  "requests_made w = length (filter is_get (events w))"

text \<open>
  An HTTP response as the program reads it: \<^verbatim>\<open>status_code\<close>; the
  \<^verbatim>\<open>content-length\<close> header as \<^verbatim>\<open>int\<close> reads it (\<open>None\<close> when the header is
  absent, \<open>Inl\<close> when \<^verbatim>\<open>int\<close> raises on it); what \<^verbatim>\<open>iter_content\<close> yields, an
  \<open>Inl\<close> being an exception raised in the middle of the stream; and what \<^verbatim>\<open>json()\<close>
  returns or raises.
\<close>

record response =
  status_code :: int
  content_length :: "(exn + int) option"
  iter_content :: "(exn + string) list"
  json :: "exn + json"

text \<open>
  The environment. \<open>http_get env n url params\<close> is the outcome of the request issued
  after \<open>n\<close> earlier ones (so a server may answer the same URL differently over time);
  \<open>open_error env name\<close> is the exception with which opening \<open>name\<close> for writing fails,
  if it does; \<open>write_error env name cur data\<close> the one with which writing \<open>data\<close> to
  \<open>name\<close> fails when the file holds \<open>cur\<close>; \<open>repr_other env\<close> is what \<^verbatim>\<open>str\<close> prints for a
  float, a list or a dict.
\<close>

record env =
  http_get :: "nat \<Rightarrow> string \<Rightarrow> (string \<times> string) list \<Rightarrow> exn + response"
  open_error :: "string \<Rightarrow> exn option"
  write_error :: "string \<Rightarrow> string \<Rightarrow> string \<Rightarrow> exn option"
  repr_other :: "json \<Rightarrow> string"

text \<open>\<^verbatim>\<open>str(v)\<close>, as f-strings and line 85 apply it to a decoded value.\<close>

definition py_str :: "env \<Rightarrow> json \<Rightarrow> string" where
  "py_str env v =
     (case v of
        JNull \<Rightarrow> ''None''
      | JBool b \<Rightarrow> (if b then ''True'' else ''False'')
      | JInt n \<Rightarrow> show_int n
      | JStr s \<Rightarrow> s
      | _ \<Rightarrow> repr_other env v)"

text \<open>\<^verbatim>\<open>requests.get\<close>: the request is recorded, then the environment answers.\<close>

definition requests_get ::
  "env \<Rightarrow> string \<Rightarrow> (string \<times> string) list \<Rightarrow> world \<Rightarrow> (exn + response) \<times> world" where
  "requests_get env url params w = (http_get env (requests_made w) url params, emit (Get url params) w)"

text \<open>\<^verbatim>\<open>open(name, "w")\<close> and \<^verbatim>\<open>open(name, "wb")\<close>: the file is created or emptied.\<close>

definition file_open :: "env \<Rightarrow> string \<Rightarrow> world \<Rightarrow> exn option \<times> world" where
  "file_open env name w =
     (case open_error env name of
        Some e \<Rightarrow> (Some e, w)
      | None \<Rightarrow> (None, w\<lparr>files := (files w)(name \<mapsto> [])\<rparr>))"

definition file_write :: "env \<Rightarrow> string \<Rightarrow> string \<Rightarrow> world \<Rightarrow> exn option \<times> world" where
  "file_write env name data w =
     (let cur = (case files w name of None \<Rightarrow> [] | Some c \<Rightarrow> c) in
      case write_error env name cur data of
        Some e \<Rightarrow> (Some e, w)
      | None \<Rightarrow> (None, w\<lparr>files := (files w)(name \<mapsto> cur @ data)\<rparr>))"

section \<open>Single-Item Downloader\<close>

text \<open>\<^verbatim>\<open>lower\<close>, on the ASCII letters of the four keys.\<close>

definition ascii_lower :: "char \<Rightarrow> char" where
  "ascii_lower c =
     (case map_of (zip ''ABCDEFGHIJKLMNOPQRSTUVWXYZ'' ''abcdefghijklmnopqrstuvwxyz'') c of
        Some l \<Rightarrow> l
      | None \<Rightarrow> c)"

text \<open>Lines 28 to 33: the four options as the strings \<^verbatim>\<open>true\<close> and \<^verbatim>\<open>false\<close>.\<close>

definition build_params :: "(string \<Rightarrow> bool option) \<Rightarrow> (string \<times> string) list" where
  "build_params options =
     map (\<lambda>key. let param_key = map ascii_lower key in
                 (param_key, if options param_key = Some True then ''true'' else ''false''))
       [''noHitsound'', ''noStoryboard'', ''noBg'', ''noVideo'']"

text \<open>
  \<^verbatim>\<open>sanitize_filename(song_title)\<close> on a decoded value: \<^verbatim>\<open>re.sub\<close> raises
  \<^verbatim>\<open>TypeError\<close> on anything but a string.
\<close>

definition sanitize_value :: "json \<Rightarrow> exn + string" where
  "sanitize_value v = (case v of JStr s \<Rightarrow> Inr (sanitize_filename s) | _ \<Rightarrow> Inl TypeError)"

definition osz_filename :: "env \<Rightarrow> json \<Rightarrow> string \<Rightarrow> string" where
  "osz_filename env beatmapset_id title = py_str env beatmapset_id @ '' - '' @ title @ ''.osz''"

text \<open>Lines 45 to 48: the chunks are written in order, an empty chunk is skipped.\<close>

fun write_chunks :: "env \<Rightarrow> string \<Rightarrow> (exn + string) list \<Rightarrow> world \<Rightarrow> exn option \<times> world" where
  "write_chunks env name [] w = (None, w)"
| "write_chunks env name (Inl e # rest) w = (Some e, w)"
| "write_chunks env name (Inr chunk # rest) w =
     (if chunk \<noteq> [] then
        (case file_write env name chunk w of
           (Some e, w') \<Rightarrow> (Some e, w')
         | (None, w') \<Rightarrow> write_chunks env name rest w')
      else write_chunks env name rest w)"

text \<open>Lines 37 to 52, the body of the \<^verbatim>\<open>try\<close>: \<open>Inl\<close> is an exception leaving it.\<close>

definition download_try ::
  "env \<Rightarrow> string \<Rightarrow> (string \<times> string) list \<Rightarrow> json \<Rightarrow> json \<Rightarrow> world \<Rightarrow> (exn + bool) \<times> world" where
  "download_try env url params beatmapset_id song_title w =
     (case requests_get env url params w of
        (Inl e, w1) \<Rightarrow> (Inl e, w1)
      | (Inr response, w1) \<Rightarrow>
          if status_code response = 200 then
            (case content_length response of
               Some (Inl e) \<Rightarrow> (Inl e, w1)
             | _ \<Rightarrow>
               (case sanitize_value song_title of
                  Inl e \<Rightarrow> (Inl e, w1)
                | Inr title \<Rightarrow>
                    let filename = osz_filename env beatmapset_id title in
                    (case file_open env filename w1 of
                       (Some e, w2) \<Rightarrow> (Inl e, w2)
                     | (None, w2) \<Rightarrow>
                         (case write_chunks env filename (iter_content response) w2 of
                            (Some e, w3) \<Rightarrow> (Inl e, w3)
                          | (None, w3) \<Rightarrow> (Inr True, w3)))))
          else
            (Inr False,
             emit (Print (MsgDownloadFailed beatmapset_id song_title (status_code response))) w1))"

text \<open>
  Lines 20 to 55. Nothing before the \<^verbatim>\<open>try\<close> can raise on a dict of options;
  \<^verbatim>\<open>except Exception\<close> turns every exception of the body into \<^verbatim>\<open>False\<close>.
\<close>

definition archive_url :: "env \<Rightarrow> json \<Rightarrow> string" where
  "archive_url env beatmapset_id = ''https://api.nerinyan.moe/d/'' @ py_str env beatmapset_id"

definition download_single_beatmap ::
  "env \<Rightarrow> json \<Rightarrow> json \<Rightarrow> (string \<Rightarrow> bool option) \<Rightarrow> world \<Rightarrow> (exn + bool) \<times> world" where
  "download_single_beatmap env beatmapset_id song_title options w =
     (let params = build_params options;
          url = archive_url env beatmapset_id
      in case download_try env url params beatmapset_id song_title w of
           (Inl e, w') \<Rightarrow>
             (Inr False, emit (Print (MsgDownloadException beatmapset_id song_title e)) w')
         | (Inr success, w') \<Rightarrow> (Inr success, w'))"

section \<open>Batch Downloader\<close>

text \<open>
  \<^verbatim>\<open>x.get(key)\<close> and \<^verbatim>\<open>x.get(key, default)\<close>: only a dict has the method, and a
  missing key gives \<^verbatim>\<open>None\<close> or the default.
\<close>

definition dict_get_default :: "json \<Rightarrow> string \<Rightarrow> json \<Rightarrow> exn + json" where
  "dict_get_default x key dflt =
     (case x of
        JDict kvs \<Rightarrow> Inr (case map_of kvs key of None \<Rightarrow> dflt | Some v \<Rightarrow> v)
      | _ \<Rightarrow> Inl AttributeError)"

definition dict_get :: "json \<Rightarrow> string \<Rightarrow> exn + json" where
  "dict_get x key = dict_get_default x key JNull"

text \<open>\<^verbatim>\<open>x.get(k1) or x.get(k2)\<close>: the second lookup runs only when the first is falsy.\<close>

definition get_or_get :: "json \<Rightarrow> string \<Rightarrow> string \<Rightarrow> exn + json" where
  "get_or_get x k1 k2 =
     (case dict_get x k1 of
        Inl e \<Rightarrow> Inl e
      | Inr v \<Rightarrow> if truthy v then Inr v else dict_get x k2)"

text \<open>
  Lines 75 to 79: the download of one identified record; a failure appends the
  identifier to the failure list, and the pause of one second follows either way.
\<close>

definition attempt_download ::
  "env \<Rightarrow> (string \<Rightarrow> bool option) \<Rightarrow> nat \<Rightarrow> nat \<Rightarrow> json \<Rightarrow> json \<Rightarrow> json list \<Rightarrow> world
     \<Rightarrow> (exn + json list) \<times> world" where
  "attempt_download env options n_total i beatmapset_id song_title failed_downloads w =
     (case download_single_beatmap env beatmapset_id song_title options
             (emit (Print (MsgDownloading i n_total beatmapset_id song_title)) w) of
        (Inl e, w') \<Rightarrow> (Inl e, w')
      | (Inr success, w') \<Rightarrow>
          (Inr (if \<not> success then failed_downloads @ [beatmapset_id] else failed_downloads),
           emit (Sleep 1) w'))"

text \<open>
  Lines 61 to 79, one pass of the loop over record \<open>beatmap\<close> at the 1-based index \<open>i\<close>,
  from the failure list and the world before it to those after it. \<open>Inl\<close> is an
  exception, which nothing in \<^verbatim>\<open>download_beatmaps\<close> catches.
\<close>

definition download_step ::
  "env \<Rightarrow> (string \<Rightarrow> bool option) \<Rightarrow> nat \<Rightarrow> nat \<Rightarrow> json \<Rightarrow> json list \<Rightarrow> world
     \<Rightarrow> (exn + json list) \<times> world" where
  "download_step env options n_total i beatmap failed_downloads w =
     (case get_or_get beatmap ''beatmapset'' ''beatmap'' of
        Inl e \<Rightarrow> (Inl e, w)
      | Inr beatmapset \<Rightarrow>
          if \<not> truthy beatmapset then
            (Inr (failed_downloads @ [JNull]), emit (Print (MsgMissingData i)) w)
          else
            (case get_or_get beatmapset ''id'' ''beatmapset_id'' of
               Inl e \<Rightarrow> (Inl e, w)
             | Inr beatmapset_id \<Rightarrow>
                 (case dict_get_default beatmapset ''title'' (JStr ''Unknown Title'') of
                    Inl e \<Rightarrow> (Inl e, w)
                  | Inr song_title \<Rightarrow>
                      if \<not> truthy beatmapset_id then
                        (Inr (failed_downloads @ [JNull]), emit (Print (MsgMissingId i)) w)
                      else
                        attempt_download env options n_total i beatmapset_id song_title
                          failed_downloads w)))"

fun download_loop ::
  "env \<Rightarrow> (string \<Rightarrow> bool option) \<Rightarrow> nat \<Rightarrow> (nat \<times> json) list \<Rightarrow> json list \<Rightarrow> world
     \<Rightarrow> (exn + json list) \<times> world" where
  "download_loop env options n_total [] failed_downloads w = (Inr failed_downloads, w)"
| "download_loop env options n_total ((i, beatmap) # rest) failed_downloads w =
     (case download_step env options n_total i beatmap failed_downloads w of
        (Inl e, w') \<Rightarrow> (Inl e, w')
      | (Inr failed_downloads', w') \<Rightarrow> download_loop env options n_total rest failed_downloads' w')"

text \<open>\<^verbatim>\<open>enumerate(xs, 1)\<close>.\<close>

definition enumerate1 :: "'a list \<Rightarrow> (nat \<times> 'a) list" where
  "enumerate1 xs = zip [1..<Suc (length xs)] xs"

text \<open>Lines 83 to 85: one line for every truthy entry of the failure list.\<close>

fun write_failures :: "env \<Rightarrow> string \<Rightarrow> json list \<Rightarrow> world \<Rightarrow> exn option \<times> world" where
  "write_failures env name [] w = (None, w)"
| "write_failures env name (fail # rest) w =
     (if truthy fail then
        (case file_write env name (py_str env fail @ [CHR 0x0A]) w of
           (Some e, w') \<Rightarrow> (Some e, w')
         | (None, w') \<Rightarrow> write_failures env name rest w')
      else write_failures env name rest w)"

definition report_name :: string where
  "report_name = ''failed_downloads.txt''"

text \<open>Lines 57 to 86.\<close>

definition download_beatmaps ::
  "env \<Rightarrow> json list \<Rightarrow> (string \<Rightarrow> bool option) \<Rightarrow> world \<Rightarrow> (exn + unit) \<times> world" where
  "download_beatmaps env beatmaps options w =
     (case download_loop env options (length beatmaps) (enumerate1 beatmaps) [] w of
        (Inl e, w1) \<Rightarrow> (Inl e, w1)
      | (Inr failed_downloads, w1) \<Rightarrow>
          if failed_downloads \<noteq> [] then
            (case file_open env report_name w1 of
               (Some e, w2) \<Rightarrow> (Inl e, w2)
             | (None, w2) \<Rightarrow>
                 (case write_failures env report_name failed_downloads w2 of
                    (Some e, w3) \<Rightarrow> (Inl e, w3)
                  | (None, w3) \<Rightarrow> (Inr (), emit (Print MsgFailedSaved) w3)))
          else (Inr (), w1))"

section \<open>Most-Played Fetcher\<close>

text \<open>
  \<^verbatim>\<open>range(start, stop, step)\<close> for a positive step, as a list. The program's step is
  the constant 10.
\<close>

function py_range :: "int \<Rightarrow> int \<Rightarrow> int \<Rightarrow> int list" where
  "py_range start stop step =
     (if 0 < step \<and> start < stop then start # py_range (start + step) stop step else [])"
  by pat_completeness auto
termination
  by (relation "measure (\<lambda>(start, stop, step). nat (stop - start))") auto

declare py_range.simps [simp del]

definition per_page :: int where
  "per_page = 10"

definition listing_url :: "string \<Rightarrow> int \<Rightarrow> string" where
  "listing_url user_id current_offset =
     ''https://osu.ppy.sh/users/'' @ user_id @ ''/beatmapsets/most_played?limit=''
       @ show_int per_page @ ''&offset='' @ show_int current_offset"

text \<open>
  Lines 92 to 114, one pass of the loop at \<open>current_offset\<close>. Every branch ends the pass:
  \<^verbatim>\<open>continue\<close> and the end of the body both go on to the next value of the range.
\<close>

definition fetch_page :: "env \<Rightarrow> string \<Rightarrow> int \<Rightarrow> json list \<times> world \<Rightarrow> json list \<times> world" where
  "fetch_page env user_id current_offset st =
     (case st of (beatmaps, w) \<Rightarrow>
       (case requests_get env (listing_url user_id current_offset) [] w of
          (Inl e, w1) \<Rightarrow> (beatmaps, emit (Print (MsgFetchError current_offset e)) w1)
        | (Inr response, w1) \<Rightarrow>
            if status_code response = 429 then
              (beatmaps, emit (Sleep 10) (emit (Print (MsgRateLimited current_offset)) w1))
            else if status_code response \<noteq> 200 then
              (beatmaps,
               emit (Print (MsgSkippingOffset current_offset (status_code response))) w1)
            else
              (case json response of
                 Inl e \<Rightarrow> (beatmaps, emit (Print (MsgFetchError current_offset e)) w1)
               | Inr (JList data) \<Rightarrow>
                   (beatmaps @ data,
                    emit (Sleep 1) (emit (Print (MsgFetched (length data) current_offset)) w1))
               | Inr _ \<Rightarrow> (beatmaps, emit (Print (MsgUnexpectedData current_offset)) w1))))"

fun fetch_loop :: "env \<Rightarrow> string \<Rightarrow> int list \<Rightarrow> json list \<times> world \<Rightarrow> json list \<times> world" where
  "fetch_loop env user_id [] st = st"
| "fetch_loop env user_id (current_offset # rest) st =
     fetch_loop env user_id rest (fetch_page env user_id current_offset st)"

text \<open>Lines 88 to 115.\<close>

definition retrieve_most_played_beatmaps ::
  "env \<Rightarrow> string \<Rightarrow> int \<Rightarrow> int \<Rightarrow> world \<Rightarrow> json list \<times> world" where
  "retrieve_most_played_beatmaps env user_id limit offset w =
     fetch_loop env user_id (py_range offset (offset + limit) per_page) ([], w)"

section \<open>Example environments\<close>

text \<open>
  Concrete worlds, responses and servers on which the properties below are evaluated:
  an empty working directory with no event yet, a page of items answered with status
  200, a bare status, ten distinct items for the request of index \<open>n\<close>, an
  environment whose file system never fails, a server whose every answer is a full page,
  and a server that answers its first request with status 429 and every later one with
  a full page.
\<close>

definition empty_world :: world where
  "empty_world = \<lparr>files = (\<lambda>name. None), events = []\<rparr>"

definition page_response :: "json list \<Rightarrow> response" where
  "page_response items =
     \<lparr>status_code = 200, content_length = None, iter_content = [], json = Inr (JList items)\<rparr>"

definition status_response :: "int \<Rightarrow> response" where
  "status_response s =
     \<lparr>status_code = s, content_length = None, iter_content = [], json = Inl (EnvError ''no JSON'')\<rparr>"

definition ten_items :: "nat \<Rightarrow> json list" where
  "ten_items n = map (\<lambda>k. JInt (int (10 * n + k))) [0..<10]"

definition quiet_env :: "(nat \<Rightarrow> string \<Rightarrow> (string \<times> string) list \<Rightarrow> exn + response) \<Rightarrow> env" where
  "quiet_env server =
     \<lparr>http_get = server, open_error = (\<lambda>name. None), write_error = (\<lambda>name cur data. None),
      repr_other = (\<lambda>v. ''?'')\<rparr>"


definition rate_limited_once_server ::
  "nat \<Rightarrow> string \<Rightarrow> (string \<times> string) list \<Rightarrow> exn + response" where
  "rate_limited_once_server n url params =
     (if n = 0 then Inr (status_response 429) else Inr (page_response (ten_items n)))"



definition abc_response :: response where
  "abc_response =
     \<lparr>status_code = 200, content_length = Some (Inr 3), iter_content = [Inr ''abc''],
      json = Inl (EnvError ''no JSON'')\<rparr>"

definition abc_server :: "nat \<Rightarrow> string \<Rightarrow> (string \<times> string) list \<Rightarrow> exn + response" where
  "abc_server n url params = Inr abc_response"



definition no_options :: "string \<Rightarrow> bool option" where
  "no_options = (\<lambda>key. None)"







text \<open>
  For the batch downloader: a record with its identifier and title under
  \<^verbatim>\<open>beatmapset\<close>, and a server whose second answer is 404 and whose other answers
  are the three bytes with status 200.
\<close>

definition record_of :: "int \<Rightarrow> json" where
  "record_of k = JDict [(''beatmapset'', JDict [(''id'', JInt k), (''title'', JStr ''t'')])]"

definition second_fails_server ::
  "nat \<Rightarrow> string \<Rightarrow> (string \<times> string) list \<Rightarrow> exn + response" where
  "second_fails_server n url params =
     (if n = 1 then Inr (status_response 404) else Inr abc_response)"

section \<open>Notions used to state the properties\<close>

text \<open>
  Trying one key and falling back to another, presence alone deciding: the value under
  \<open>k1\<close> if the dict has that key, else the value under \<open>k2\<close> if it has that one.
\<close>

definition first_present :: "(string \<times> json) list \<Rightarrow> string \<Rightarrow> string \<Rightarrow> json option" where
  "first_present kvs k1 k2 = (case map_of kvs k1 of Some v \<Rightarrow> Some v | None \<Rightarrow> map_of kvs k2)"

text \<open>
  The value under a key when the key is there and its value is truthy, and the first
  such value of two keys.
\<close>

definition truthy_value :: "(string \<times> json) list \<Rightarrow> string \<Rightarrow> json option" where
  "truthy_value kvs k =
     (case map_of kvs k of None \<Rightarrow> None | Some v \<Rightarrow> if truthy v then Some v else None)"

definition first_truthy :: "(string \<times> json) list \<Rightarrow> string \<Rightarrow> string \<Rightarrow> json option" where
  "first_truthy kvs k1 k2 =
     (case truthy_value kvs k1 of Some v \<Rightarrow> Some v | None \<Rightarrow> truthy_value kvs k2)"


text \<open>What an entry of the failure list can be: the placeholder or a truthy identifier.\<close>

definition null_or_truthy :: "json \<Rightarrow> bool" where
  "null_or_truthy v = (v = JNull \<or> truthy v)"

section \<open>Properties of the Filename Sanitizer\<close>

lemma re_sub_class_delete: "re_sub_class cls [] s = filter (\<lambda>c. c \<notin> set cls) s"
  by (induction s) (simp_all add: re_sub_class_def)

lemma sanitize_filename_filter:
  "sanitize_filename s = filter (\<lambda>c. c \<notin> set reserved_chars) s"
  by (simp add: sanitize_filename_def re_sub_class_delete)

text \<open>
  C7: the output of the sanitizer is the input with every occurrence of the nine
  characters backslash, slash, colon, star, question mark, double quote, less-than,
  greater-than and bar deleted, the remaining characters in their order; so none of the
  nine occurs in the output.
\<close>

theorem sanitize_filename_deletes:
  "sanitize_filename s =
     filter (\<lambda>c. c \<notin> {CHR 0x5C, CHR ''/'', CHR '':'', CHR ''*'', CHR ''?'', CHR 0x22,
                        CHR ''<'', CHR ''>'', CHR ''|''}) s
   \<and> set (sanitize_filename s) \<inter>
       {CHR 0x5C, CHR ''/'', CHR '':'', CHR ''*'', CHR ''?'', CHR 0x22,
        CHR ''<'', CHR ''>'', CHR ''|''} = {}"
proof -
  have cls: "set reserved_chars =
      {CHR 0x5C, CHR ''/'', CHR '':'', CHR ''*'', CHR ''?'', CHR 0x22,
       CHR ''<'', CHR ''>'', CHR ''|''}"
    by (auto simp: reserved_chars_def)
  have "set (filter (\<lambda>c. c \<notin> set reserved_chars) s) \<inter> set reserved_chars = {}"
    by auto
  with cls show ?thesis
    by (simp add: sanitize_filename_filter)
qed

theorem sanitize_filename_deletes_witness:
  "sanitize_filename ''a/b:c*d?<e>|f'' = ''abcdef''
   \<and> sanitize_filename [CHR ''x'', CHR 0x5C, CHR 0x22, CHR ''y''] = ''xy''"
  using sanitize_filename_deletes [of "''a/b:c*d?<e>|f''"]
    sanitize_filename_deletes [of "[CHR ''x'', CHR 0x5C, CHR 0x22, CHR ''y'']"]
  by simp

text \<open>
  C8: the sanitizer is idempotent; sanitizing a sanitized string gives it back
  unchanged.
\<close>

theorem sanitize_filename_idempotent:
  "sanitize_filename (sanitize_filename s) = sanitize_filename s"
  by (simp add: sanitize_filename_filter)

section \<open>Properties of the Most-Played Fetcher\<close>

lemma py_range_map:
  "0 < step \<Longrightarrow> py_range start stop step =
     map (\<lambda>k. start + int k * step) [0..<nat ((stop - start + step - 1) div step)]"
proof (induction start stop step rule: py_range.induct)
  case (1 start stop step)
  show ?case
  proof (cases "start < stop")
    case True
    let ?m = "(stop - start - 1) div step"
    have m0: "0 \<le> ?m"
      using True "1.prems" by (simp add: pos_imp_zdiv_nonneg_iff)
    have "(stop - start + step - 1) div step = ((stop - start - 1) + step) div step"
      by (simp add: algebra_simps)
    also have "\<dots> = ?m + 1"
      using "1.prems" by simp
    finally have n: "nat ((stop - start + step - 1) div step) = Suc (nat ?m)"
      using m0 by (simp add: Suc_nat_eq_nat_zadd1)
    have ih: "py_range (start + step) stop step =
        map (\<lambda>k. start + step + int k * step) [0..<nat ?m]"
      using "1.IH" True "1.prems" by (simp add: algebra_simps)
    have "py_range start stop step = start # py_range (start + step) stop step"
      using True "1.prems" by (simp add: py_range.simps [of start])
    also have "\<dots> = map (\<lambda>k. start + int k * step) [0..<Suc (nat ?m)]"
      unfolding ih by (simp add: upt_conv_Cons map_Suc_upt [symmetric] algebra_simps del: upt_Suc)
    finally show ?thesis
      using n by simp
  next
    case False
    then have "\<not> 0 < (stop - start + step - 1) div step"
      using "1.prems" by (simp add: pos_imp_zdiv_pos_iff)
    with False show ?thesis
      by (simp add: py_range.simps [of start])
  qed
qed


lemma ceil10: "nat \<lceil>real_of_int l / 10\<rceil> = nat ((l + 9) div 10)"
  by linarith

lemma requests_made_emit [simp]:
  "requests_made (emit e w) = (if is_get e then Suc (requests_made w) else requests_made w)"
  by (simp add: requests_made_def emit_def)

lemma files_emit [simp]: "files (emit e w) = files w"
  by (simp add: emit_def)

lemma events_emit [simp]: "events (emit e w) = events w @ [e]"
  by (simp add: emit_def)

lemma fetch_page_gets:
  "filter is_get (events (snd (fetch_page env user_id off st))) =
     filter is_get (events (snd st)) @ [Get (listing_url user_id off) []]"
  by (auto simp: fetch_page_def requests_get_def split: prod.splits sum.splits json.splits)

lemma fetch_loop_gets:
  "filter is_get (events (snd (fetch_loop env user_id offs st))) =
     filter is_get (events (snd st)) @ map (\<lambda>off. Get (listing_url user_id off) []) offs"
  by (induction offs arbitrary: st) (simp_all add: fetch_page_gets)




lemma range_per_page:
  "py_range offset (offset + limit) per_page =
     map (\<lambda>k. offset + 10 * int k) [0..<nat \<lceil>real_of_int limit / 10\<rceil>]"
proof -
  have "(limit + per_page - 1) div per_page = (limit + 9) div 10"
    by (simp add: per_page_def)
  then show ?thesis
    using py_range_map [of per_page offset "offset + limit"]
    by (simp add: ceil10 per_page_def mult.commute)
qed


text \<open>
  C9: the loop of the fetcher runs over \<open>range(offset, offset + limit, 10)\<close>, which has
  \<open>\<lceil>limit / 10\<rceil>\<close> values for a positive limit and none otherwise. Each pass
  issues exactly one request and then goes on to the next value, whatever the
  environment answers, so for every environment the run ends after that many requests.
  The model is a total function: the range is built by a recursion whose termination is
  proved, and the loop is a structural recursion over it.
\<close>

theorem fetch_iterations:
  "length (py_range offset (offset + limit) per_page) =
     (if limit \<le> 0 then 0 else nat \<lceil>real_of_int limit / 10\<rceil>)
   \<and> requests_made (snd (retrieve_most_played_beatmaps env user_id limit offset w)) =
     requests_made w + (if limit \<le> 0 then 0 else nat \<lceil>real_of_int limit / 10\<rceil>)"
proof -
  have "limit \<le> 0 \<Longrightarrow> nat \<lceil>real_of_int limit / 10\<rceil> = 0"
    by (simp add: ceil10)
  then have n: "(if limit \<le> 0 then 0 else nat \<lceil>real_of_int limit / 10\<rceil>) =
      nat \<lceil>real_of_int limit / 10\<rceil>"
    by simp
  have "requests_made (snd (retrieve_most_played_beatmaps env user_id limit offset w)) =
      requests_made w + length (py_range offset (offset + limit) per_page)"
    by (simp add: requests_made_def retrieve_most_played_beatmaps_def fetch_loop_gets)
  then show ?thesis
    unfolding n by (simp add: range_per_page)
qed


theorem fetch_iterations_witness:
  "requests_made (snd (retrieve_most_played_beatmaps (quiet_env rate_limited_once_server)
      ''12345'' 25 0 empty_world)) = 3"
  using fetch_iterations [of 0 25 "quiet_env rate_limited_once_server" "''12345''" empty_world]
  by (simp add: ceil10 empty_world_def requests_made_def)




text \<open>
  C1, where the code differs from the claim: the server answers the first request with
  status 429 and every later one with a full page. Fetching 20 items from offset 0
  requests offset 0 once, sleeps 10 seconds and goes on to offset 10. Offset 0 is not
  requested again, and its page is missing from the result.
\<close>

theorem fetch_429_not_retried:
  "retrieve_most_played_beatmaps (quiet_env rate_limited_once_server) ''12345'' 20 0 empty_world =
     (ten_items 1,
      \<lparr>files = (\<lambda>name. None),
       events = [Get (listing_url ''12345'' 0) [], Print (MsgRateLimited 0), Sleep 10,
                 Get (listing_url ''12345'' 10) [], Print (MsgFetched 10 10), Sleep 1]\<rparr>)"
  by (simp add: retrieve_most_played_beatmaps_def per_page_def py_range.simps fetch_page_def
      requests_get_def requests_made_def emit_def quiet_env_def rate_limited_once_server_def
      page_response_def status_response_def ten_items_def empty_world_def)

section \<open>Properties of the Single-Item Downloader\<close>
























section \<open>Properties of the Batch Downloader\<close>

lemma get_or_get_dict:
  "get_or_get (JDict kvs) k1 k2 =
     Inr (case map_of kvs k1 of
            None \<Rightarrow> (case map_of kvs k2 of None \<Rightarrow> JNull | Some v2 \<Rightarrow> v2)
          | Some v1 \<Rightarrow> if truthy v1 then v1
                       else (case map_of kvs k2 of None \<Rightarrow> JNull | Some v2 \<Rightarrow> v2))"
  by (simp add: get_or_get_def dict_get_def dict_get_default_def split: option.splits)

lemma get_or_get_first_truthy:
  assumes "first_truthy kvs k1 k2 = Some v"
  shows "get_or_get (JDict kvs) k1 k2 = Inr v" and "truthy v"
  using assms
  by (auto simp: get_or_get_dict first_truthy_def truthy_value_def split: option.splits if_splits)

lemma get_or_get_no_truthy:
  assumes "first_truthy kvs k1 k2 = None"
  shows "\<exists>v. get_or_get (JDict kvs) k1 k2 = Inr v \<and> \<not> truthy v"
  using assms
  by (auto simp: get_or_get_dict first_truthy_def truthy_value_def split: option.splits if_splits)

lemma get_or_get_first_present:
  assumes "first_present kvs k1 k2 = Some v" and "truthy v"
  shows "get_or_get (JDict kvs) k1 k2 = Inr v"
  using assms by (auto simp: get_or_get_dict first_present_def split: option.splits)

lemma get_or_get_absent:
  assumes "first_present kvs k1 k2 = None"
  shows "get_or_get (JDict kvs) k1 k2 = Inr JNull"
  using assms by (auto simp: get_or_get_dict first_present_def split: option.splits)

lemma download_step_nested:
  assumes "get_or_get (JDict kvs) ''beatmapset'' ''beatmap'' = Inr (JDict m)" and "m \<noteq> []"
  shows "download_step env options n i (JDict kvs) failed w =
     (case get_or_get (JDict m) ''id'' ''beatmapset_id'' of
        Inl e \<Rightarrow> (Inl e, w)
      | Inr v \<Rightarrow>
          if truthy v then
            attempt_download env options n i v
              (case map_of m ''title'' of None \<Rightarrow> JStr ''Unknown Title'' | Some t \<Rightarrow> t) failed w
          else (Inr (failed @ [JNull]), emit (Print (MsgMissingId i)) w))"
  using assms
  by (simp add: download_step_def dict_get_default_def get_or_get_dict split: option.splits)

lemma download_step_no_nested:
  assumes "get_or_get (JDict kvs) ''beatmapset'' ''beatmap'' = Inr v" and "\<not> truthy v"
  shows "download_step env options n i (JDict kvs) failed w =
     (Inr (failed @ [JNull]), emit (Print (MsgMissingData i)) w)"
  using assms by (simp add: download_step_def)

text \<open>
  C4: for a record that is a dict, the nested object is the value under
  \<^verbatim>\<open>beatmapset\<close>, or else the one under \<^verbatim>\<open>beatmap\<close>, and within it the identifier
  is the value under \<^verbatim>\<open>id\<close>, or else the one under \<^verbatim>\<open>beatmapset_id\<close>. When
  neither key of the record is there, the pass appends the null placeholder to the
  failure list, prints, and does nothing else. When the nested object is a non-empty
  dict with neither identifier key, it does the same. When a truthy identifier is found,
  the download is attempted for it, with the title of the nested object or, when that
  has no title, with \<^verbatim>\<open>Unknown Title\<close>.
\<close>

theorem download_step_extraction:
  "(first_present kvs ''beatmapset'' ''beatmap'' = None \<longrightarrow>
      download_step env options n i (JDict kvs) failed w =
        (Inr (failed @ [JNull]), emit (Print (MsgMissingData i)) w))
   \<and> (\<forall>m. first_present kvs ''beatmapset'' ''beatmap'' = Some (JDict m) \<and> m \<noteq> []
          \<and> first_present m ''id'' ''beatmapset_id'' = None \<longrightarrow>
      download_step env options n i (JDict kvs) failed w =
        (Inr (failed @ [JNull]), emit (Print (MsgMissingId i)) w))
   \<and> (\<forall>m v. first_present kvs ''beatmapset'' ''beatmap'' = Some (JDict m) \<and> m \<noteq> []
          \<and> first_present m ''id'' ''beatmapset_id'' = Some v \<and> truthy v \<longrightarrow>
      download_step env options n i (JDict kvs) failed w =
        attempt_download env options n i v
          (case map_of m ''title'' of None \<Rightarrow> JStr ''Unknown Title'' | Some t \<Rightarrow> t) failed w)"
proof (intro conjI allI impI)
  assume "first_present kvs ''beatmapset'' ''beatmap'' = None"
  then have "get_or_get (JDict kvs) ''beatmapset'' ''beatmap'' = Inr JNull"
    by (rule get_or_get_absent)
  then show "download_step env options n i (JDict kvs) failed w =
        (Inr (failed @ [JNull]), emit (Print (MsgMissingData i)) w)"
    by (simp add: download_step_no_nested)
next
  fix m
  assume a: "first_present kvs ''beatmapset'' ''beatmap'' = Some (JDict m) \<and> m \<noteq> []
          \<and> first_present m ''id'' ''beatmapset_id'' = None"
  then have "get_or_get (JDict kvs) ''beatmapset'' ''beatmap'' = Inr (JDict m)"
    by (simp add: get_or_get_first_present)
  moreover from a have "get_or_get (JDict m) ''id'' ''beatmapset_id'' = Inr JNull"
    by (simp add: get_or_get_absent)
  ultimately show "download_step env options n i (JDict kvs) failed w =
        (Inr (failed @ [JNull]), emit (Print (MsgMissingId i)) w)"
    using a by (simp add: download_step_nested)
next
  fix m v
  assume a: "first_present kvs ''beatmapset'' ''beatmap'' = Some (JDict m) \<and> m \<noteq> []
          \<and> first_present m ''id'' ''beatmapset_id'' = Some v \<and> truthy v"
  then have "get_or_get (JDict kvs) ''beatmapset'' ''beatmap'' = Inr (JDict m)"
    by (simp add: get_or_get_first_present)
  moreover from a have "get_or_get (JDict m) ''id'' ''beatmapset_id'' = Inr v"
    by (simp add: get_or_get_first_present)
  ultimately show "download_step env options n i (JDict kvs) failed w =
        attempt_download env options n i v
          (case map_of m ''title'' of None \<Rightarrow> JStr ''Unknown Title'' | Some t \<Rightarrow> t) failed w"
    using a by (simp add: download_step_nested)
qed

theorem download_step_extraction_witness:
  "download_step (quiet_env abc_server) no_options 3 1 (JDict []) [] empty_world =
     (Inr [JNull], emit (Print (MsgMissingData 1)) empty_world)
   \<and> download_step (quiet_env abc_server) no_options 3 2
       (JDict [(''beatmap'', JDict [(''title'', JStr ''T'')])]) [] empty_world =
     (Inr [JNull], emit (Print (MsgMissingId 2)) empty_world)
   \<and> download_step (quiet_env abc_server) no_options 3 3
       (JDict [(''beatmap'', JDict [(''beatmapset_id'', JInt 42)])]) [] empty_world =
     attempt_download (quiet_env abc_server) no_options 3 3 (JInt 42) (JStr ''Unknown Title'') []
       empty_world"
proof -
  have 1: "first_present [] ''beatmapset'' ''beatmap'' = None"
    by (simp add: first_present_def)
  have 2: "first_present [(''beatmap'', JDict [(''title'', JStr ''T'')])] ''beatmapset'' ''beatmap''
        = Some (JDict [(''title'', JStr ''T'')])
      \<and> [(''title'', JStr ''T'')] \<noteq> []
      \<and> first_present [(''title'', JStr ''T'')] ''id'' ''beatmapset_id'' = None"
    by (simp add: first_present_def)
  have 3: "first_present [(''beatmap'', JDict [(''beatmapset_id'', JInt 42)])] ''beatmapset'' ''beatmap''
        = Some (JDict [(''beatmapset_id'', JInt 42)])
      \<and> [(''beatmapset_id'', JInt 42)] \<noteq> []
      \<and> first_present [(''beatmapset_id'', JInt 42)] ''id'' ''beatmapset_id'' = Some (JInt 42)
      \<and> truthy (JInt 42)"
    by (simp add: first_present_def)
  from download_step_extraction [of "[]" "quiet_env abc_server" no_options 3 1 "[]" empty_world] 1
  have a: "download_step (quiet_env abc_server) no_options 3 1 (JDict []) [] empty_world =
      (Inr [JNull], emit (Print (MsgMissingData 1)) empty_world)"
    by simp
  from download_step_extraction [of "[(''beatmap'', JDict [(''title'', JStr ''T'')])]"
      "quiet_env abc_server" no_options 3 2 "[]" empty_world] 2
  have b: "download_step (quiet_env abc_server) no_options 3 2
      (JDict [(''beatmap'', JDict [(''title'', JStr ''T'')])]) [] empty_world =
      (Inr [JNull], emit (Print (MsgMissingId 2)) empty_world)"
    by simp
  from download_step_extraction [of "[(''beatmap'', JDict [(''beatmapset_id'', JInt 42)])]"
      "quiet_env abc_server" no_options 3 3 "[]" empty_world] 3
  have c: "download_step (quiet_env abc_server) no_options 3 3
      (JDict [(''beatmap'', JDict [(''beatmapset_id'', JInt 42)])]) [] empty_world =
      attempt_download (quiet_env abc_server) no_options 3 3 (JInt 42)
        (case map_of [(''beatmapset_id'', JInt 42)] ''title'' of
           None \<Rightarrow> JStr ''Unknown Title'' | Some t \<Rightarrow> t) [] empty_world"
    by blast
  from a b c show ?thesis
    by simp
qed

text \<open>
  C10: a value that is there but falsy counts as absent. A record whose
  \<^verbatim>\<open>beatmapset\<close> is falsy is processed as the same record without that key, so the
  lookup goes on to \<^verbatim>\<open>beatmap\<close>; when both are falsy or absent the pass appends
  the null placeholder, prints, and issues no request. Likewise a nested object whose
  \<^verbatim>\<open>id\<close> is falsy is processed as one without that key (still non-empty), so the
  lookup goes on to \<^verbatim>\<open>beatmapset_id\<close>; when both are falsy or absent the pass
  appends the null placeholder, prints, and issues no request. In absolute terms: the
  nested object is the first truthy value of \<^verbatim>\<open>beatmapset\<close> and
  \<^verbatim>\<open>beatmap\<close>, the identifier the first truthy value of \<^verbatim>\<open>id\<close> and
  \<^verbatim>\<open>beatmapset_id\<close> in it; without the first the pass records the placeholder
  for missing data, without the second the placeholder for a missing identifier, and
  with both it attempts the download of that identifier.
\<close>

theorem download_step_falsy:
  "(\<forall>kvs' v. map_of kvs ''beatmapset'' = Some v \<and> \<not> truthy v
        \<and> map_of kvs' = (map_of kvs)(''beatmapset'' := None) \<longrightarrow>
      download_step env options n i (JDict kvs) failed w =
        download_step env options n i (JDict kvs') failed w)
   \<and> ((\<forall>v. map_of kvs ''beatmapset'' = Some v \<longrightarrow> \<not> truthy v)
        \<and> (\<forall>v. map_of kvs ''beatmap'' = Some v \<longrightarrow> \<not> truthy v) \<longrightarrow>
      download_step env options n i (JDict kvs) failed w =
        (Inr (failed @ [JNull]), emit (Print (MsgMissingData i)) w))
   \<and> (\<forall>kvs' m m' v. get_or_get (JDict kvs) ''beatmapset'' ''beatmap'' = Inr (JDict m)
        \<and> get_or_get (JDict kvs') ''beatmapset'' ''beatmap'' = Inr (JDict m') \<and> m' \<noteq> []
        \<and> map_of m ''id'' = Some v \<and> \<not> truthy v
        \<and> map_of m' = (map_of m)(''id'' := None) \<longrightarrow>
      download_step env options n i (JDict kvs) failed w =
        download_step env options n i (JDict kvs') failed w)
   \<and> (\<forall>m. get_or_get (JDict kvs) ''beatmapset'' ''beatmap'' = Inr (JDict m) \<and> m \<noteq> []
        \<and> (\<forall>v. map_of m ''id'' = Some v \<longrightarrow> \<not> truthy v)
        \<and> (\<forall>v. map_of m ''beatmapset_id'' = Some v \<longrightarrow> \<not> truthy v) \<longrightarrow>
      download_step env options n i (JDict kvs) failed w =
        (Inr (failed @ [JNull]), emit (Print (MsgMissingId i)) w))
   \<and> (first_truthy kvs ''beatmapset'' ''beatmap'' = None \<longrightarrow>
      download_step env options n i (JDict kvs) failed w =
        (Inr (failed @ [JNull]), emit (Print (MsgMissingData i)) w))
   \<and> (\<forall>m. first_truthy kvs ''beatmapset'' ''beatmap'' = Some (JDict m)
        \<and> first_truthy m ''id'' ''beatmapset_id'' = None \<longrightarrow>
      download_step env options n i (JDict kvs) failed w =
        (Inr (failed @ [JNull]), emit (Print (MsgMissingId i)) w))
   \<and> (\<forall>m v. first_truthy kvs ''beatmapset'' ''beatmap'' = Some (JDict m)
        \<and> first_truthy m ''id'' ''beatmapset_id'' = Some v \<longrightarrow>
      download_step env options n i (JDict kvs) failed w =
        attempt_download env options n i v
          (case map_of m ''title'' of None \<Rightarrow> JStr ''Unknown Title'' | Some t \<Rightarrow> t) failed w)"
proof (intro conjI allI impI)
  fix kvs' v
  assume a: "map_of kvs ''beatmapset'' = Some v \<and> \<not> truthy v
        \<and> map_of kvs' = (map_of kvs)(''beatmapset'' := None)"
  then have "map_of kvs' ''beatmapset'' = None" "map_of kvs' ''beatmap'' = map_of kvs ''beatmap''"
    by simp_all
  with a show "download_step env options n i (JDict kvs) failed w =
        download_step env options n i (JDict kvs') failed w"
    by (simp add: download_step_def get_or_get_dict)
next
  assume a: "(\<forall>v. map_of kvs ''beatmapset'' = Some v \<longrightarrow> \<not> truthy v)
        \<and> (\<forall>v. map_of kvs ''beatmap'' = Some v \<longrightarrow> \<not> truthy v)"
  then obtain v where "get_or_get (JDict kvs) ''beatmapset'' ''beatmap'' = Inr v" "\<not> truthy v"
    by (auto simp: get_or_get_dict split: option.splits)
  then show "download_step env options n i (JDict kvs) failed w =
        (Inr (failed @ [JNull]), emit (Print (MsgMissingData i)) w)"
    by (rule download_step_no_nested)
next
  fix kvs' m m' v
  assume a: "get_or_get (JDict kvs) ''beatmapset'' ''beatmap'' = Inr (JDict m)
        \<and> get_or_get (JDict kvs') ''beatmapset'' ''beatmap'' = Inr (JDict m') \<and> m' \<noteq> []
        \<and> map_of m ''id'' = Some v \<and> \<not> truthy v
        \<and> map_of m' = (map_of m)(''id'' := None)"
  then have m: "m \<noteq> []" by auto
  from a have keys: "map_of m' ''id'' = None" "map_of m' ''beatmapset_id'' = map_of m ''beatmapset_id''"
    and title: "map_of m' ''title'' = map_of m ''title''"
    by simp_all
  from a have g: "get_or_get (JDict m) ''id'' ''beatmapset_id'' = get_or_get (JDict m') ''id'' ''beatmapset_id''"
    by (simp add: get_or_get_dict keys)
  from a m have s1: "download_step env options n i (JDict kvs) failed w =
     (case get_or_get (JDict m) ''id'' ''beatmapset_id'' of
        Inl e \<Rightarrow> (Inl e, w)
      | Inr v \<Rightarrow>
          if truthy v then
            attempt_download env options n i v
              (case map_of m ''title'' of None \<Rightarrow> JStr ''Unknown Title'' | Some t \<Rightarrow> t) failed w
          else (Inr (failed @ [JNull]), emit (Print (MsgMissingId i)) w))"
    by (intro download_step_nested) simp_all
  from a have s2: "download_step env options n i (JDict kvs') failed w =
     (case get_or_get (JDict m') ''id'' ''beatmapset_id'' of
        Inl e \<Rightarrow> (Inl e, w)
      | Inr v \<Rightarrow>
          if truthy v then
            attempt_download env options n i v
              (case map_of m' ''title'' of None \<Rightarrow> JStr ''Unknown Title'' | Some t \<Rightarrow> t) failed w
          else (Inr (failed @ [JNull]), emit (Print (MsgMissingId i)) w))"
    by (intro download_step_nested) simp_all
  show "download_step env options n i (JDict kvs) failed w =
        download_step env options n i (JDict kvs') failed w"
    by (simp only: s1 s2 g title)
next
  fix m
  assume a: "get_or_get (JDict kvs) ''beatmapset'' ''beatmap'' = Inr (JDict m) \<and> m \<noteq> []
        \<and> (\<forall>v. map_of m ''id'' = Some v \<longrightarrow> \<not> truthy v)
        \<and> (\<forall>v. map_of m ''beatmapset_id'' = Some v \<longrightarrow> \<not> truthy v)"
  then obtain v where "get_or_get (JDict m) ''id'' ''beatmapset_id'' = Inr v" "\<not> truthy v"
    by (auto simp: get_or_get_dict split: option.splits)
  with a show "download_step env options n i (JDict kvs) failed w =
        (Inr (failed @ [JNull]), emit (Print (MsgMissingId i)) w)"
    by (simp add: download_step_nested)
next
  assume "first_truthy kvs ''beatmapset'' ''beatmap'' = None"
  then obtain v where "get_or_get (JDict kvs) ''beatmapset'' ''beatmap'' = Inr v" "\<not> truthy v"
    using get_or_get_no_truthy by blast
  then show "download_step env options n i (JDict kvs) failed w =
        (Inr (failed @ [JNull]), emit (Print (MsgMissingData i)) w)"
    by (rule download_step_no_nested)
next
  fix m
  assume a: "first_truthy kvs ''beatmapset'' ''beatmap'' = Some (JDict m)
        \<and> first_truthy m ''id'' ''beatmapset_id'' = None"
  then have nested: "get_or_get (JDict kvs) ''beatmapset'' ''beatmap'' = Inr (JDict m)" "m \<noteq> []"
    using get_or_get_first_truthy [of kvs "''beatmapset''" "''beatmap''" "JDict m"] by simp_all
  from a obtain v where "get_or_get (JDict m) ''id'' ''beatmapset_id'' = Inr v" "\<not> truthy v"
    using get_or_get_no_truthy by blast
  then show "download_step env options n i (JDict kvs) failed w =
        (Inr (failed @ [JNull]), emit (Print (MsgMissingId i)) w)"
    by (simp add: download_step_nested [OF nested])
next
  fix m v
  assume a: "first_truthy kvs ''beatmapset'' ''beatmap'' = Some (JDict m)
        \<and> first_truthy m ''id'' ''beatmapset_id'' = Some v"
  then have nested: "get_or_get (JDict kvs) ''beatmapset'' ''beatmap'' = Inr (JDict m)" "m \<noteq> []"
    using get_or_get_first_truthy [of kvs "''beatmapset''" "''beatmap''" "JDict m"] by simp_all
  from a have "get_or_get (JDict m) ''id'' ''beatmapset_id'' = Inr v" "truthy v"
    using get_or_get_first_truthy [of m "''id''" "''beatmapset_id''" v] by simp_all
  then show "download_step env options n i (JDict kvs) failed w =
        attempt_download env options n i v
          (case map_of m ''title'' of None \<Rightarrow> JStr ''Unknown Title'' | Some t \<Rightarrow> t) failed w"
    by (simp add: download_step_nested [OF nested])
qed

theorem download_step_falsy_witness:
  "download_step (quiet_env abc_server) no_options 1 1
       (JDict [(''beatmapset'', JDict []), (''beatmap'', JDict [(''id'', JInt 7)])]) [] empty_world =
     download_step (quiet_env abc_server) no_options 1 1
       (JDict [(''beatmap'', JDict [(''id'', JInt 7)])]) [] empty_world
   \<and> download_step (quiet_env abc_server) no_options 1 1
       (JDict [(''beatmapset'', JDict []), (''beatmap'', JStr [])]) [] empty_world =
     (Inr [JNull], emit (Print (MsgMissingData 1)) empty_world)
   \<and> download_step (quiet_env abc_server) no_options 1 1
       (JDict [(''beatmapset'', JDict [(''id'', JInt 0), (''beatmapset_id'', JInt 7)])]) []
       empty_world =
     download_step (quiet_env abc_server) no_options 1 1
       (JDict [(''beatmapset'', JDict [(''beatmapset_id'', JInt 7)])]) [] empty_world
   \<and> download_step (quiet_env abc_server) no_options 1 1
       (JDict [(''beatmapset'', JDict [(''id'', JInt 0), (''beatmapset_id'', JStr [])])]) []
       empty_world =
     (Inr [JNull], emit (Print (MsgMissingId 1)) empty_world)
   \<and> download_step (quiet_env abc_server) no_options 1 1
       (JDict [(''beatmapset'', JDict []), (''beatmap'', JDict [(''id'', JInt 7)])]) [] empty_world =
     attempt_download (quiet_env abc_server) no_options 1 1 (JInt 7) (JStr ''Unknown Title'') []
       empty_world
   \<and> download_step (quiet_env abc_server) no_options 1 1
       (JDict [(''beatmapset'', JDict [(''id'', JInt 0), (''beatmapset_id'', JInt 7)])]) []
       empty_world =
     attempt_download (quiet_env abc_server) no_options 1 1 (JInt 7) (JStr ''Unknown Title'') []
       empty_world
   \<and> fst (download_step (quiet_env abc_server) no_options 1 1
       (JDict [(''beatmapset'', JDict [(''id'', JInt 0), (''beatmapset_id'', JInt 7)])]) []
       empty_world) = Inr []
   \<and> events (snd (download_step (quiet_env abc_server) no_options 1 1
       (JDict [(''beatmapset'', JDict [(''id'', JInt 0), (''beatmapset_id'', JInt 7)])]) []
       empty_world)) =
     [Print (MsgDownloading 1 1 (JInt 7) (JStr ''Unknown Title'')),
      Get (archive_url (quiet_env abc_server) (JInt 7)) (build_params no_options),
      Sleep 1]"
proof -
  let ?e = "quiet_env abc_server"
  let ?a = "[(''beatmapset'', JDict []), (''beatmap'', JDict [(''id'', JInt 7)])]"
  let ?a' = "[(''beatmap'', JDict [(''id'', JInt 7)])]"
  let ?b = "[(''beatmapset'', JDict []), (''beatmap'', JStr [])]"
  let ?mc = "[(''id'', JInt 0), (''beatmapset_id'', JInt 7)]"
  let ?mc' = "[(''beatmapset_id'', JInt 7)]"
  let ?c = "[(''beatmapset'', JDict ?mc)]"
  let ?c' = "[(''beatmapset'', JDict ?mc')]"
  let ?md = "[(''id'', JInt 0), (''beatmapset_id'', JStr [])]"
  let ?d = "[(''beatmapset'', JDict ?md)]"
  have ha: "map_of ?a ''beatmapset'' = Some (JDict []) \<and> \<not> truthy (JDict [])
      \<and> map_of ?a' = (map_of ?a)(''beatmapset'' := None)"
    by (auto simp: fun_eq_iff)
  have hb: "(\<forall>v. map_of ?b ''beatmapset'' = Some v \<longrightarrow> \<not> truthy v)
      \<and> (\<forall>v. map_of ?b ''beatmap'' = Some v \<longrightarrow> \<not> truthy v)"
    by auto
  have hc: "get_or_get (JDict ?c) ''beatmapset'' ''beatmap'' = Inr (JDict ?mc)
      \<and> get_or_get (JDict ?c') ''beatmapset'' ''beatmap'' = Inr (JDict ?mc') \<and> ?mc' \<noteq> []
      \<and> map_of ?mc ''id'' = Some (JInt 0) \<and> \<not> truthy (JInt 0)
      \<and> map_of ?mc' = (map_of ?mc)(''id'' := None)"
    by (auto simp: fun_eq_iff get_or_get_def dict_get_def dict_get_default_def)
  have hd: "get_or_get (JDict ?d) ''beatmapset'' ''beatmap'' = Inr (JDict ?md) \<and> ?md \<noteq> []
      \<and> (\<forall>v. map_of ?md ''id'' = Some v \<longrightarrow> \<not> truthy v)
      \<and> (\<forall>v. map_of ?md ''beatmapset_id'' = Some v \<longrightarrow> \<not> truthy v)"
    by (auto simp: get_or_get_def dict_get_def dict_get_default_def)
  have he: "first_truthy ?a ''beatmapset'' ''beatmap'' = Some (JDict [(''id'', JInt 7)])
      \<and> first_truthy [(''id'', JInt 7)] ''id'' ''beatmapset_id'' = Some (JInt 7)"
    by (simp add: first_truthy_def truthy_value_def)
  have hf: "first_truthy ?c ''beatmapset'' ''beatmap'' = Some (JDict ?mc)
      \<and> first_truthy ?mc ''id'' ''beatmapset_id'' = Some (JInt 7)"
    by (simp add: first_truthy_def truthy_value_def)
  note T = download_step_falsy [where env = ?e and options = no_options and n = 1 and i = 1
      and failed = "[]" and w = empty_world]
  from T [of ?a, THEN conjunct1, rule_format, OF ha]
  have 1: "download_step ?e no_options 1 1 (JDict ?a) [] empty_world =
        download_step ?e no_options 1 1 (JDict ?a') [] empty_world" .
  from T [of ?b, THEN conjunct2, THEN conjunct1, rule_format, OF hb]
  have 2: "download_step ?e no_options 1 1 (JDict ?b) [] empty_world =
        (Inr [JNull], emit (Print (MsgMissingData 1)) empty_world)"
    by simp
  from T [of ?c, THEN conjunct2, THEN conjunct2, THEN conjunct1, rule_format, OF hc]
  have 3: "download_step ?e no_options 1 1 (JDict ?c) [] empty_world =
        download_step ?e no_options 1 1 (JDict ?c') [] empty_world" .
  from T [of ?d, THEN conjunct2, THEN conjunct2, THEN conjunct2, THEN conjunct1, rule_format, OF hd]
  have 4: "download_step ?e no_options 1 1 (JDict ?d) [] empty_world =
        (Inr [JNull], emit (Print (MsgMissingId 1)) empty_world)"
    by simp
  from T [of ?a, THEN conjunct2, THEN conjunct2, THEN conjunct2, THEN conjunct2, THEN conjunct2,
      THEN conjunct2, rule_format, OF he]
  have 5: "download_step ?e no_options 1 1 (JDict ?a) [] empty_world =
        attempt_download ?e no_options 1 1 (JInt 7) (JStr ''Unknown Title'') [] empty_world"
    by simp
  from T [of ?c, THEN conjunct2, THEN conjunct2, THEN conjunct2, THEN conjunct2, THEN conjunct2,
      THEN conjunct2, rule_format, OF hf]
  have 6: "download_step ?e no_options 1 1 (JDict ?c) [] empty_world =
        attempt_download ?e no_options 1 1 (JInt 7) (JStr ''Unknown Title'') [] empty_world"
    by simp
  have 7: "fst (attempt_download ?e no_options 1 1 (JInt 7) (JStr ''Unknown Title'') [] empty_world)
        = Inr []
      \<and> events (snd (attempt_download ?e no_options 1 1 (JInt 7) (JStr ''Unknown Title'') []
          empty_world)) =
        [Print (MsgDownloading 1 1 (JInt 7) (JStr ''Unknown Title'')),
         Get (archive_url ?e (JInt 7)) (build_params no_options), Sleep 1]"
    by (simp add: attempt_download_def download_single_beatmap_def download_try_def
        requests_get_def requests_made_def emit_def quiet_env_def abc_server_def abc_response_def
        sanitize_value_def file_open_def file_write_def Let_def empty_world_def)
  from 1 2 3 4 5 7 show ?thesis
    unfolding 6 by (intro conjI) simp_all
qed

lemma file_write_other:
  "name' \<noteq> name \<Longrightarrow> files (snd (file_write env name data w)) name' = files w name'"
  by (simp add: file_write_def Let_def split: option.splits)

lemma write_chunks_other:
  "name' \<noteq> name \<Longrightarrow> files (snd (write_chunks env name chunks w)) name' = files w name'"
proof (induction chunks arbitrary: w)
  case Nil
  show ?case by simp
next
  case (Cons c chunks)
  show ?case
  proof (cases c)
    case (Inl e)
    then show ?thesis by simp
  next
    case (Inr chunk)
    obtain r w1 where fw: "file_write env name chunk w = (r, w1)"
      by (cases "file_write env name chunk w")
    have w1: "files w1 name' = files w name'"
      using file_write_other [OF Cons.prems, of env chunk w] fw by simp
    show ?thesis
      using Cons.IH [OF Cons.prems] w1
      by (cases r) (simp_all add: Inr fw)
  qed
qed

lemma osz_filename_not_report: "osz_filename env beatmapset_id title \<noteq> report_name"
proof
  assume "osz_filename env beatmapset_id title = report_name"
  then have "last (osz_filename env beatmapset_id title) = last report_name"
    by simp
  then show False
    by (simp add: osz_filename_def report_name_def)
qed

lemma download_try_report:
  "files (snd (download_try env url params beatmapset_id song_title w)) report_name =
     files w report_name"
proof -
  have neq: "report_name \<noteq> osz_filename env beatmapset_id title" for title
    using osz_filename_not_report [of env beatmapset_id title] by simp
  show ?thesis
    using write_chunks_other [OF neq]
    by (auto simp: download_try_def requests_get_def file_open_def Let_def neq
        split: sum.splits option.splits prod.splits
        dest!: arg_cong [where f = snd])
qed

lemma download_single_report:
  "files (snd (download_single_beatmap env beatmapset_id song_title options w)) report_name =
     files w report_name"
  using download_try_report [of env "archive_url env beatmapset_id" "build_params options"
      beatmapset_id song_title w]
  by (auto simp: download_single_beatmap_def split: prod.splits sum.splits)

lemma attempt_download_report:
  "files (snd (attempt_download env options n i v t failed w)) report_name = files w report_name"
  using download_single_report [of env v t options "emit (Print (MsgDownloading i n v t)) w"]
  by (auto simp: attempt_download_def split: prod.splits sum.splits)

lemma download_step_report:
  "files (snd (download_step env options n i beatmap failed w)) report_name = files w report_name"
  by (simp add: download_step_def attempt_download_report split: sum.splits)

lemma download_loop_report:
  "files (snd (download_loop env options n recs failed w)) report_name = files w report_name"
proof (induction recs arbitrary: failed w)
  case Nil
  show ?case by simp
next
  case (Cons rec recs)
  obtain i beatmap where rec: "rec = (i, beatmap)"
    by (cases rec)
  obtain r w1 where st: "download_step env options n i beatmap failed w = (r, w1)"
    by (cases "download_step env options n i beatmap failed w")
  have w1: "files w1 report_name = files w report_name"
    using download_step_report [of env options n i beatmap failed w] st by simp
  show ?case
    using Cons.IH w1 by (cases r) (simp_all add: rec st)
qed

lemma attempt_download_failed:
  assumes "attempt_download env options n i v t failed w = (Inr failed', w')"
  shows "failed' = failed \<or> failed' = failed @ [v]"
  using assms by (auto simp: attempt_download_def split: prod.splits sum.splits if_splits)

lemma download_step_failed:
  assumes "download_step env options n i beatmap failed w = (Inr failed', w')"
    and "list_all null_or_truthy failed"
  shows "list_all null_or_truthy failed'"
  using assms
  by (auto simp: download_step_def null_or_truthy_def
      split: sum.splits if_splits dest!: attempt_download_failed)

lemma download_loop_failed:
  assumes "download_loop env options n recs failed w = (Inr failed', w')"
    and "list_all null_or_truthy failed"
  shows "list_all null_or_truthy failed'"
  using assms
proof (induction recs arbitrary: failed w)
  case Nil
  then show ?case by simp
next
  case (Cons rec recs)
  obtain i beatmap where rec: "rec = (i, beatmap)"
    by (cases rec)
  obtain r w1 where st: "download_step env options n i beatmap failed w = (r, w1)"
    by (cases "download_step env options n i beatmap failed w")
  show ?case
  proof (cases r)
    case (Inl e)
    with Cons.prems st rec show ?thesis by simp
  next
    case (Inr failed1)
    with st Cons.prems(2) have "list_all null_or_truthy failed1"
      by (auto dest: download_step_failed)
    moreover from Cons.prems(1) st Inr rec
    have "download_loop env options n recs failed1 w1 = (Inr failed', w')"
      by simp
    ultimately show ?thesis
      by (rule Cons.IH [rotated])
  qed
qed

lemma filter_truthy_non_null:
  "list_all null_or_truthy failed \<Longrightarrow> filter truthy failed = filter (\<lambda>v. v \<noteq> JNull) failed"
  by (induction failed) (auto simp: null_or_truthy_def)

lemma write_failures_result:
  assumes "write_failures env name failed w = (None, w')" and "files w name = Some cur"
  shows "files w' = (files w)(name \<mapsto>
           cur @ concat (map (\<lambda>v. py_str env v @ [CHR 0x0A]) (filter truthy failed)))"
  using assms
proof (induction failed arbitrary: w cur)
  case Nil
  then show ?case by (auto simp: fun_upd_idem)
next
  case (Cons fail rest)
  show ?case
  proof (cases "truthy fail")
    case False
    with Cons show ?thesis by simp
  next
    case True
    let ?line = "py_str env fail @ [CHR 0x0A]"
    obtain r w1 where fw: "file_write env name ?line w = (r, w1)"
      by (cases "file_write env name ?line w")
    with Cons.prems(1) True have r: "r = None"
      by (cases r) auto
    with fw Cons.prems(2) have w1: "files w1 = (files w)(name \<mapsto> cur @ ?line)"
      by (auto simp: file_write_def Let_def split: option.splits)
    then have "files w1 name = Some (cur @ ?line)" by simp
    moreover from Cons.prems(1) True fw r have "write_failures env name rest w1 = (None, w')"
      by simp
    ultimately have "files w' = (files w1)(name \<mapsto>
        (cur @ ?line) @ concat (map (\<lambda>v. py_str env v @ [CHR 0x0A]) (filter truthy rest)))"
      by (rule Cons.IH [rotated])
    with w1 True show ?thesis by simp
  qed
qed

lemma write_failures_ok:
  assumes "\<forall>c d. write_error env name c d = None"
  shows "fst (write_failures env name failed w) = None"
proof (induction failed arbitrary: w)
  case Nil
  show ?case by simp
next
  case (Cons fail rest)
  then show ?case
    using assms by (auto simp: file_write_def Let_def split: option.splits prod.splits)
qed

text \<open>
  C5: let the loop over the records end with the failure list \<open>failed\<close>. The loop
  itself leaves \<^verbatim>\<open>failed_downloads.txt\<close> as it was. If \<open>failed\<close> is empty, the
  batch downloader returns at once and no file is touched. If it is not empty, then
  whenever the batch downloader returns, the file holds exactly one line for each entry
  of \<open>failed\<close> other than the null placeholder, in the order of the list, whatever it
  held before, and no other file has changed; and it does return when the file opens and
  accepts every write.
\<close>

theorem download_beatmaps_report:
  assumes "download_loop env options (length beatmaps) (enumerate1 beatmaps) [] w = (Inr failed, w1)"
  shows "files w1 report_name = files w report_name
     \<and> (failed = [] \<longrightarrow> download_beatmaps env beatmaps options w = (Inr (), w1))
     \<and> (failed \<noteq> [] \<longrightarrow>
          (\<forall>w2. download_beatmaps env beatmaps options w = (Inr (), w2) \<longrightarrow>
             files w2 = (files w1)(report_name \<mapsto>
               concat (map (\<lambda>v. py_str env v @ [CHR 0x0A]) (filter (\<lambda>v. v \<noteq> JNull) failed))))
          \<and> (open_error env report_name = None \<and> (\<forall>c d. write_error env report_name c d = None) \<longrightarrow>
               (\<exists>w2. download_beatmaps env beatmaps options w = (Inr (), w2))))"
proof (intro conjI impI allI)
  show "files w1 report_name = files w report_name"
    using download_loop_report [of env options "length beatmaps" "enumerate1 beatmaps" "[]" w] assms
    by simp
next
  assume "failed = []"
  with assms show "download_beatmaps env beatmaps options w = (Inr (), w1)"
    by (simp add: download_beatmaps_def)
next
  fix w2
  assume ne: "failed \<noteq> []" and ret: "download_beatmaps env beatmaps options w = (Inr (), w2)"
  let ?w1' = "w1\<lparr>files := (files w1)(report_name \<mapsto> [])\<rparr>"
  from assms have inv: "list_all null_or_truthy failed"
    by (rule download_loop_failed) simp
  from ret assms ne obtain w3 where
    wf: "write_failures env report_name failed ?w1' = (None, w3)" and w2: "w2 = emit (Print MsgFailedSaved) w3"
    by (auto simp: download_beatmaps_def file_open_def split: option.splits prod.splits)
  have "files ?w1' report_name = Some []" by simp
  from write_failures_result [OF wf this] w2
  show "files w2 = (files w1)(report_name \<mapsto>
      concat (map (\<lambda>v. py_str env v @ [CHR 0x0A]) (filter (\<lambda>v. v \<noteq> JNull) failed)))"
    by (simp add: filter_truthy_non_null [OF inv])
next
  assume ne: "failed \<noteq> []"
    and ok: "open_error env report_name = None \<and> (\<forall>c d. write_error env report_name c d = None)"
  then have "fst (write_failures env report_name failed (w1\<lparr>files := (files w1)(report_name \<mapsto> [])\<rparr>)) = None"
    by (simp add: write_failures_ok)
  with assms ne ok show "\<exists>w2. download_beatmaps env beatmaps options w = (Inr (), w2)"
    by (auto simp: download_beatmaps_def file_open_def split: option.splits prod.splits)
qed

lemma three_records_loop:
  "fst (download_loop (quiet_env second_fails_server) no_options 3
      (enumerate1 [record_of 1, record_of 2, record_of 3]) [] empty_world) = Inr [JInt 2]"
  by (simp add: enumerate1_def upt_rec record_of_def download_step_def get_or_get_def dict_get_def
      dict_get_default_def attempt_download_def download_single_beatmap_def download_try_def
      requests_get_def requests_made_def emit_def quiet_env_def second_fails_server_def
      status_response_def abc_response_def sanitize_value_def file_open_def file_write_def
      Let_def empty_world_def)

lemma py_str_2: "py_str env (JInt 2) = ''2''"
  by (simp add: py_str_def show_int_def show_nat.simps digit_char_def)

theorem download_beatmaps_report_witness:
  "fst (download_loop (quiet_env second_fails_server) no_options 3
      (enumerate1 [record_of 1, record_of 2, record_of 3]) [] empty_world) = Inr [JInt 2]
   \<and> fst (download_beatmaps (quiet_env second_fails_server)
        [record_of 1, record_of 2, record_of 3] no_options empty_world) = Inr ()
   \<and> files (snd (download_beatmaps (quiet_env second_fails_server)
        [record_of 1, record_of 2, record_of 3] no_options empty_world)) ''failed_downloads.txt''
      = Some [CHR ''2'', CHR 0x0A]"
proof -
  let ?env = "quiet_env second_fails_server"
  let ?recs = "[record_of 1, record_of 2, record_of 3]"
  let ?loop = "download_loop ?env no_options (length ?recs) (enumerate1 ?recs) [] empty_world"
  have len: "length ?recs = 3"
    by simp
  have "fst ?loop = Inr [JInt 2]"
    unfolding len by (rule three_records_loop)
  then have loop: "?loop = (Inr [JInt 2], snd ?loop)"
    by (simp only: prod_eq_iff fst_conv snd_conv simp_thms)
  have ok: "open_error ?env report_name = None \<and> (\<forall>c d. write_error ?env report_name c d = None)"
    by (simp add: quiet_env_def)
  from download_beatmaps_report [OF loop] ok
  obtain w2 where w2: "download_beatmaps ?env ?recs no_options empty_world = (Inr (), w2)"
    by auto
  from download_beatmaps_report [OF loop] w2
  have "files w2 = (files (snd ?loop))(report_name \<mapsto>
      concat (map (\<lambda>v. py_str ?env v @ [CHR 0x0A]) (filter (\<lambda>v. v \<noteq> JNull) [JInt 2])))"
    by blast
  then have "files w2 ''failed_downloads.txt'' = Some [CHR ''2'', CHR 0x0A]"
    by (simp add: report_name_def py_str_2)
  with w2 three_records_loop show ?thesis
    by simp
qed

end
